theory Spec2Isabelle
  imports Complex_Main
begin

section \<open>Carbon calculator of k8scarbonfootprint (pkg/carbon/calculator.go)\<close>

text \<open>
  A shallow embedding of the Go carbon calculator: the four scope calculations
  (cluster, namespace, node, pod), the two energy estimators they call, and the
  conversion of metrics to data frames.
\<close>

subsection \<open>float64\<close>

text \<open>
  Go's \<open>float64\<close> is IEEE-754 binary64. The model keeps its special values, since the
  code divides by quantities that can be zero and compares the quotient: a value is a
  finite number, one of the two infinities, or NaN. A finite value carries an exact real:
  rounding, overflow to an infinity, underflow and the sign of zero are not modelled
  (every zero divides like \<open>+0\<close>, which is the zero an integer conversion yields), and
  the conversion of an integer is exact, where binary64 rounds above \<open>2^53\<close>.
  Statements that compare two computed values are therefore made only where rounding
  cannot change the comparison: on the same stored value, through the order alone, or
  within bounds that keep the compared values apart by far more than the rounding error.
  The operations follow IEEE-754 on the special values: NaN propagates,
  \<open>\<infinity> - \<infinity>\<close>, \<open>0 \<times> \<infinity>\<close>, \<open>0 / 0\<close> and \<open>\<infinity> / \<infinity>\<close> are NaN, a nonzero finite
  value divided by zero is an infinity, and every comparison with NaN is false.
\<close>

datatype float64 = Fin real | PInf | NInf | NaN

fun fneg :: "float64 \<Rightarrow> float64" where
  "fneg (Fin a) = Fin (- a)"
| "fneg PInf = NInf"
| "fneg NInf = PInf"
| "fneg NaN = NaN"

fun fadd :: "float64 \<Rightarrow> float64 \<Rightarrow> float64" where
  "fadd NaN y = NaN"
| "fadd x NaN = NaN"
| "fadd (Fin a) (Fin b) = Fin (a + b)"
| "fadd PInf NInf = NaN"
| "fadd NInf PInf = NaN"
| "fadd PInf y = PInf"
| "fadd x PInf = PInf"
| "fadd NInf y = NInf"
| "fadd x NInf = NInf"

text \<open>The infinity with the sign of \<open>a\<close> times the sign of \<open>x\<close>, for \<open>a \<noteq> 0\<close>.\<close>

definition signed_inf :: "real \<Rightarrow> float64 \<Rightarrow> float64" where
  "signed_inf a x = (if 0 < a then x else fneg x)"

fun fmul :: "float64 \<Rightarrow> float64 \<Rightarrow> float64" where
  "fmul NaN y = NaN"
| "fmul x NaN = NaN"
| "fmul (Fin a) (Fin b) = Fin (a * b)"
| "fmul (Fin a) y = (if a = 0 then NaN else signed_inf a y)"
| "fmul x (Fin b) = (if b = 0 then NaN else signed_inf b x)"
| "fmul PInf y = y"
| "fmul NInf y = fneg y"

fun fdiv :: "float64 \<Rightarrow> float64 \<Rightarrow> float64" where
  "fdiv NaN y = NaN"
| "fdiv x NaN = NaN"
| "fdiv (Fin a) (Fin b) =
     (if b = 0 then (if a = 0 then NaN else signed_inf a PInf) else Fin (a / b))"
| "fdiv (Fin a) y = Fin 0"
| "fdiv x (Fin b) = (if b < 0 then fneg x else x)"
| "fdiv x y = NaN"

fun flt :: "float64 \<Rightarrow> float64 \<Rightarrow> bool" where
  "flt NaN y = False"
| "flt x NaN = False"
| "flt (Fin a) (Fin b) = (a < b)"
| "flt NInf NInf = False"
| "flt NInf y = True"
| "flt x NInf = False"
| "flt PInf y = False"
| "flt x PInf = True"

fun fle :: "float64 \<Rightarrow> float64 \<Rightarrow> bool" where
  "fle NaN y = False"
| "fle x NaN = False"
| "fle (Fin a) (Fin b) = (a \<le> b)"
| "fle NInf y = True"
| "fle x PInf = True"
| "fle x y = False"

text \<open>
  Go's \<open>==\<close> on \<open>float64\<close>: false whenever an operand is NaN, also for NaN against
  itself. HOL's \<open>=\<close> on the datatype is the identity of values instead (\<open>x = NaN\<close> says
  that \<open>x\<close> is NaN); where a statement is about the comparison the code or a caller would
  make, it is written with \<open>feq\<close>.
\<close>

fun isNaN :: "float64 \<Rightarrow> bool" where
  "isNaN NaN = True"
| "isNaN x = False"

fun feq :: "float64 \<Rightarrow> float64 \<Rightarrow> bool" where
  "feq NaN y = False"
| "feq x NaN = False"
| "feq (Fin a) (Fin b) = (a = b)"
| "feq PInf PInf = True"
| "feq NInf NInf = True"
| "feq x y = False"

text \<open>
  The Go operators \<open>+\<close>, \<open>*\<close>, \<open>/\<close>, \<open><\<close>, \<open>>\<close> on \<open>float64\<close> are written with the
  usual symbols. The instance is syntactic only: with NaN, \<open>\<le>\<close> is not an order.
\<close>

instantiation float64 :: "{plus, times, inverse, ord}"
begin

definition plus_float64 :: "float64 \<Rightarrow> float64 \<Rightarrow> float64" where
  "plus_float64 x y = fadd x y"

definition times_float64 :: "float64 \<Rightarrow> float64 \<Rightarrow> float64" where
  "times_float64 x y = fmul x y"

definition divide_float64 :: "float64 \<Rightarrow> float64 \<Rightarrow> float64" where
  "divide_float64 x y = fdiv x y"

definition inverse_float64 :: "float64 \<Rightarrow> float64" where
  "inverse_float64 x = fdiv (Fin 1) x"

definition less_float64 :: "float64 \<Rightarrow> float64 \<Rightarrow> bool" where
  "less_float64 x y = flt x y"

definition less_eq_float64 :: "float64 \<Rightarrow> float64 \<Rightarrow> bool" where
  "less_eq_float64 x y = fle x y"

instance ..

end

text \<open>The conversion \<open>float64(n)\<close> of an \<open>int64\<close>.\<close>

definition float64_of_int :: "int \<Rightarrow> float64" where
  "float64_of_int n = Fin (real_of_int n)"

subsection \<open>Data model\<close>

text \<open>
  The Kubernetes descriptors, reduced to the fields the calculator reads. A quantity of a
  request or capacity list is read through \<open>Cpu().MilliValue()\<close> and \<open>Memory().Value()\<close>,
  both \<open>int64\<close>; an absent entry reads as the zero quantity (the accessors never return
  nil, so the \<open>!= nil\<close> tests of the source always succeed).
\<close>

type_synonym time = int

record Container =
  cpuMilliValue :: int
  memoryValue :: int

record corev1_Pod =
  pod_Name :: string
  pod_Namespace :: string
  pod_Labels :: "string \<rightharpoonup> string"
  pod_NodeName :: string
  pod_Containers :: "Container list"

record corev1_Node =
  node_Name :: string
  node_Labels :: "string \<rightharpoonup> string"
  node_CapacityCpuMilli :: int
  node_CapacityMemory :: int

record corev1_Namespace =
  ns_Name :: string
  ns_Labels :: "string \<rightharpoonup> string"

record CarbonConfig =
  GridIntensityAPIKey :: string
  ElectricityMapsAPIKey :: string
  DefaultGridIntensity :: float64
  PUE :: float64
  EnableNetworkAccounting :: bool
  EnableStorageAccounting :: bool

record Metrics =
  Timestamp :: time
  ResourceType :: string
  ResourceName :: string
  Namespace :: string
  NodeName :: string
  CO2Emissions :: float64
  EnergyConsumption :: float64
  GridIntensity :: float64
  Source :: string
  Labels :: "string \<rightharpoonup> string"
  CPUUsage :: float64
  MemoryUsage :: float64
  StorageUsage :: float64
  NetworkTraffic :: float64

text \<open>
  \<open>InstanceSpecs\<close> is declared outside calculator.go; the fields are the ones the
  fallback literal of \<open>calculateNodeEnergyConsumption\<close> sets.
\<close>

record InstanceSpecs =
  InstanceType :: string
  VCPUs :: int
  MemoryGB :: float64
  TDP :: float64

text \<open>
  Errors are values. \<open>PodNotScheduled ns name\<close> is the error of
  \<open>calculatePodEnergyConsumption\<close> (\<open>pod ns/name is not scheduled to a node\<close>);
  \<open>ProviderError\<close> is whatever an injected provider reports.
\<close>

datatype error = PodNotScheduled string string | ProviderError string

text \<open>
  The calculator holds its configuration and the two injected providers it calls. The
  providers are implemented elsewhere, so each is a parameter: any function from the
  argument of the call to a value or an error (the context argument is not modelled).
  \<open>GetGridIntensity\<close> is called with the configured default intensity,
  \<open>GetInstanceSpecs\<close> with the instance type.
\<close>

record carbonCalculator =
  config :: CarbonConfig
  gridIntensity :: "float64 \<Rightarrow> error + float64"
  instanceSpecs :: "string \<Rightarrow> error + InstanceSpecs"

text \<open>A metric with every field at Go's zero value, as a composite literal starts.\<close>

definition emptyMetrics :: Metrics where
  "emptyMetrics = \<lparr>Timestamp = 0, ResourceType = [], ResourceName = [], Namespace = [],
     NodeName = [], CO2Emissions = Fin 0, EnergyConsumption = Fin 0, GridIntensity = Fin 0,
     Source = [], Labels = Map.empty, CPUUsage = Fin 0, MemoryUsage = Fin 0,
     StorageUsage = Fin 0, NetworkTraffic = Fin 0\<rparr>"

subsection \<open>Energy estimators\<close>

text \<open>
  The container loop of both estimators: each container adds its CPU request
  (millicores) and its memory request (bytes) to the two running totals.
\<close>

fun sumContainers :: "Container list \<Rightarrow> float64 \<times> float64 \<Rightarrow> float64 \<times> float64" where
  "sumContainers [] acc = acc"
| "sumContainers (c # cs) (totalCPURequests, totalMemoryRequests) =
     sumContainers cs
       (totalCPURequests + float64_of_int (cpuMilliValue c),
        totalMemoryRequests + float64_of_int (memoryValue c))"

text \<open>The pod loop of the node estimator: pods of other nodes are skipped.\<close>

fun sumNodePods :: "string \<Rightarrow> corev1_Pod list \<Rightarrow> float64 \<times> float64 \<Rightarrow> float64 \<times> float64" where
  "sumNodePods name [] acc = acc"
| "sumNodePods name (pod # pods) acc =
     (if pod_NodeName pod \<noteq> name then sumNodePods name pods acc
      else sumNodePods name pods (sumContainers (pod_Containers pod) acc))"

text \<open>The instance type of a node: the beta label, else the stable label, else unknown.\<close>

definition instanceTypeOf :: "corev1_Node \<Rightarrow> string" where
  "instanceTypeOf node =
     (case node_Labels node ''beta.kubernetes.io/instance-type'' of
        Some it \<Rightarrow> it
      | None \<Rightarrow>
         (case node_Labels node ''node.kubernetes.io/instance-type'' of
            Some it \<Rightarrow> it
          | None \<Rightarrow> ''unknown''))"

definition calculateNodeEnergyConsumption ::
    "carbonCalculator \<Rightarrow> corev1_Node \<Rightarrow> corev1_Pod list \<Rightarrow> error + float64" where
  "calculateNodeEnergyConsumption c node pods =
     (let instanceType = instanceTypeOf node;
          specs = (case instanceSpecs c instanceType of
                     Inl err \<Rightarrow> \<lparr>InstanceType = instanceType, VCPUs = 2,
                                 MemoryGB = Fin 4, TDP = Fin 100\<rparr>
                   | Inr s \<Rightarrow> s);
          baseEnergyWatts = TDP specs;
          totals = sumNodePods (node_Name node) pods (Fin 0, Fin 0);
          totalCPURequests = fst totals;
          totalMemoryRequests = snd totals;
          nodeCPUCapacity = float64_of_int (node_CapacityCpuMilli node);
          cpuUtilization0 = totalCPURequests / nodeCPUCapacity;
          cpuUtilization =
            (if cpuUtilization0 > Fin 1.0 then Fin 1.0 else cpuUtilization0);
          nodeMemoryCapacity = float64_of_int (node_CapacityMemory node);
          memoryUtilization0 = totalMemoryRequests / nodeMemoryCapacity;
          memoryUtilization :: float64 =
            (if memoryUtilization0 > Fin 1.0 then Fin 1.0 else memoryUtilization0);
          utilizationFactor = Fin 0.3 + (Fin 0.7 * cpuUtilization);
          energyWatts = baseEnergyWatts * utilizationFactor;
          energyKWh = energyWatts / Fin 1000.0
      in Inr energyKWh)"

definition calculatePodEnergyConsumption :: "carbonCalculator \<Rightarrow> corev1_Pod \<Rightarrow> error + float64" where
  "calculatePodEnergyConsumption c pod =
     (if pod_NodeName pod = [] then Inl (PodNotScheduled (pod_Namespace pod) (pod_Name pod))
      else
        (let totals = sumContainers (pod_Containers pod) (Fin 0, Fin 0);
             totalCPURequests = fst totals;
             totalMemoryRequests = snd totals;
             cpuEnergyWatts = (totalCPURequests / Fin 1000.0) * Fin 2.5;
             memoryEnergyWatts :: float64 =
               (totalMemoryRequests / Fin (1024 * 1024 * 1024)) * Fin 0.375;
             totalEnergyWatts = cpuEnergyWatts + memoryEnergyWatts;
             energyKWh = totalEnergyWatts / Fin 1000.0
         in Inr energyKWh))"

subsection \<open>The four scope calculations\<close>

text \<open>
  \<open>now\<close> stands for the clock reading \<open>time.Now()\<close> each calculation takes first.
  The loops of the cluster and namespace calculations skip an element whose estimator
  reports an error.
\<close>

fun sumNodeEnergies ::
    "carbonCalculator \<Rightarrow> corev1_Node list \<Rightarrow> corev1_Pod list \<Rightarrow> float64 \<Rightarrow> float64" where
  "sumNodeEnergies c [] pods totalEnergy = totalEnergy"
| "sumNodeEnergies c (node # nodes) pods totalEnergy =
     (case calculateNodeEnergyConsumption c node pods of
        Inl err \<Rightarrow> sumNodeEnergies c nodes pods totalEnergy
      | Inr nodeEnergy \<Rightarrow> sumNodeEnergies c nodes pods (totalEnergy + nodeEnergy))"

definition CalculateClusterCarbon ::
    "carbonCalculator \<Rightarrow> time \<Rightarrow> corev1_Node list \<Rightarrow> corev1_Pod list \<Rightarrow> error + Metrics list" where
  "CalculateClusterCarbon c now nodes pods =
     (let totalEnergy0 = sumNodeEnergies c nodes pods (Fin 0);
          gridIntensity' =
            (case gridIntensity c (DefaultGridIntensity (config c)) of
               Inl err \<Rightarrow> DefaultGridIntensity (config c)
             | Inr g \<Rightarrow> g);
          totalEnergy = totalEnergy0 * PUE (config c);
          totalCO2 = totalEnergy * gridIntensity'
      in Inr [emptyMetrics\<lparr>Timestamp := now, ResourceType := ''cluster'',
                ResourceName := ''cluster'', CO2Emissions := totalCO2,
                EnergyConsumption := totalEnergy, GridIntensity := gridIntensity',
                Source := ''calculated''\<rparr>])"

fun sumPodEnergies :: "carbonCalculator \<Rightarrow> corev1_Pod list \<Rightarrow> float64 \<Rightarrow> float64" where
  "sumPodEnergies c [] totalEnergy = totalEnergy"
| "sumPodEnergies c (pod # pods) totalEnergy =
     (case calculatePodEnergyConsumption c pod of
        Inl err \<Rightarrow> sumPodEnergies c pods totalEnergy
      | Inr podEnergy \<Rightarrow> sumPodEnergies c pods (totalEnergy + podEnergy))"

definition CalculateNamespaceCarbon ::
    "carbonCalculator \<Rightarrow> time \<Rightarrow> corev1_Namespace \<Rightarrow> corev1_Pod list \<Rightarrow> error + Metrics list" where
  "CalculateNamespaceCarbon c now namespace pods =
     (let namespacePods = filter (\<lambda>pod. pod_Namespace pod = ns_Name namespace) pods;
          totalEnergy0 = sumPodEnergies c namespacePods (Fin 0);
          gridIntensity' =
            (case gridIntensity c (DefaultGridIntensity (config c)) of
               Inl err \<Rightarrow> DefaultGridIntensity (config c)
             | Inr g \<Rightarrow> g);
          totalEnergy = totalEnergy0 * PUE (config c);
          totalCO2 = totalEnergy * gridIntensity'
      in Inr [emptyMetrics\<lparr>Timestamp := now, ResourceType := ''namespace'',
                ResourceName := ns_Name namespace, Namespace := ns_Name namespace,
                CO2Emissions := totalCO2, EnergyConsumption := totalEnergy,
                GridIntensity := gridIntensity', Source := ''calculated'',
                Labels := ns_Labels namespace\<rparr>])"

definition CalculateNodeCarbon ::
    "carbonCalculator \<Rightarrow> time \<Rightarrow> corev1_Node \<Rightarrow> corev1_Pod list \<Rightarrow> error + Metrics list" where
  "CalculateNodeCarbon c now node pods =
     (let nodePods = filter (\<lambda>pod. pod_NodeName pod = node_Name node) pods
      in case calculateNodeEnergyConsumption c node nodePods of
           Inl err \<Rightarrow> Inl err
         | Inr nodeEnergy0 \<Rightarrow>
            (let gridIntensity' =
                   (case gridIntensity c (DefaultGridIntensity (config c)) of
                      Inl err \<Rightarrow> DefaultGridIntensity (config c)
                    | Inr g \<Rightarrow> g);
                 nodeEnergy = nodeEnergy0 * PUE (config c);
                 co2Emissions = nodeEnergy * gridIntensity';
                 instanceType = instanceTypeOf node;
                 zone = (case node_Labels node ''topology.kubernetes.io/zone'' of
                           None \<Rightarrow> [] | Some z \<Rightarrow> z);
                 labels = [''instance-type'' \<mapsto> instanceType, ''zone'' \<mapsto> zone]
             in Inr [emptyMetrics\<lparr>Timestamp := now, ResourceType := ''node'',
                       ResourceName := node_Name node, NodeName := node_Name node,
                       CO2Emissions := co2Emissions, EnergyConsumption := nodeEnergy,
                       GridIntensity := gridIntensity', Source := ''calculated'',
                       Labels := labels\<rparr>]))"

definition CalculatePodCarbon ::
    "carbonCalculator \<Rightarrow> time \<Rightarrow> corev1_Pod \<Rightarrow> error + Metrics list" where
  "CalculatePodCarbon c now pod =
     (case calculatePodEnergyConsumption c pod of
        Inl err \<Rightarrow> Inl err
      | Inr podEnergy0 \<Rightarrow>
         (let gridIntensity' =
                (case gridIntensity c (DefaultGridIntensity (config c)) of
                   Inl err \<Rightarrow> DefaultGridIntensity (config c)
                 | Inr g \<Rightarrow> g);
              podEnergy = podEnergy0 * PUE (config c);
              co2Emissions = podEnergy * gridIntensity'
          in Inr [emptyMetrics\<lparr>Timestamp := now, ResourceType := ''pod'',
                    ResourceName := pod_Name pod, Namespace := pod_Namespace pod,
                    NodeName := pod_NodeName pod, CO2Emissions := co2Emissions,
                    EnergyConsumption := podEnergy, GridIntensity := gridIntensity',
                    Source := ''calculated'', Labels := pod_Labels pod\<rparr>]))"

subsection \<open>Queries and data frames\<close>

record Query =
  RefID :: string
  QueryType :: string
  query_ResourceType :: string
  Aggregation :: string
  GroupBy :: "string list"
  Filters :: "(string \<times> string) list"
  TimeRange_From :: string
  TimeRange_To :: string

text \<open>
  What the formatter builds with the frame library: a frame has the name given to
  \<open>NewFrame\<close>, its fields in the order they were appended, and the frame type set by
  \<open>SetMeta\<close>. A field has a name, the unit of its \<open>FieldConfig\<close> (if one was set) and a
  vector of values of one type.
\<close>

datatype FrameType = FrameTypeTimeSeriesMulti | FrameTypeTable | FrameTypeSingleValue

datatype FieldValues =
  TimeValues "time list" | Float64Values "float64 list" | StringValues "string list"

record Field =
  field_Name :: string
  field_Unit :: "string option"
  field_Values :: FieldValues

record DataFrame =
  frame_Name :: string
  frame_Fields :: "Field list"
  frame_MetaType :: FrameType

text \<open>
  Each field is allocated with one slot per metric and slot \<open>i\<close> is set from metric
  \<open>i\<close>: the vector is the metrics' column, in input order.
\<close>

definition convertToTimeSeriesFrames :: "Metrics list \<Rightarrow> Query \<Rightarrow> error + DataFrame list" where
  "convertToTimeSeriesFrames metrics query =
     (let timeField = \<lparr>field_Name = ''time'', field_Unit = None,
                        field_Values = TimeValues (map Timestamp metrics)\<rparr>;
          co2Field = \<lparr>field_Name = ''co2_emissions'', field_Unit = Some ''gCO2'',
                       field_Values = Float64Values (map CO2Emissions metrics)\<rparr>;
          energyField = \<lparr>field_Name = ''energy_consumption'', field_Unit = Some ''kWh'',
                          field_Values = Float64Values (map EnergyConsumption metrics)\<rparr>;
          gridIntensityField = \<lparr>field_Name = ''grid_intensity'', field_Unit = Some ''gCO2/kWh'',
                                 field_Values = Float64Values (map GridIntensity metrics)\<rparr>
      in Inr [\<lparr>frame_Name = RefID query,
                frame_Fields = [timeField, co2Field, energyField, gridIntensityField],
                frame_MetaType = FrameTypeTimeSeriesMulti\<rparr>])"

definition convertToTableFrames :: "Metrics list \<Rightarrow> Query \<Rightarrow> error + DataFrame list" where
  "convertToTableFrames metrics query =
     (let resourceField = \<lparr>field_Name = ''resource'', field_Unit = None,
                            field_Values = StringValues (map ResourceName metrics)\<rparr>;
          namespaceField = \<lparr>field_Name = ''namespace'', field_Unit = None,
                             field_Values = StringValues (map Namespace metrics)\<rparr>;
          co2Field = \<lparr>field_Name = ''co2_emissions'', field_Unit = Some ''gCO2'',
                       field_Values = Float64Values (map CO2Emissions metrics)\<rparr>;
          energyField = \<lparr>field_Name = ''energy_consumption'', field_Unit = Some ''kWh'',
                          field_Values = Float64Values (map EnergyConsumption metrics)\<rparr>
      in Inr [\<lparr>frame_Name = RefID query,
                frame_Fields = [resourceField, namespaceField, co2Field, energyField],
                frame_MetaType = FrameTypeTable\<rparr>])"

text \<open>The three loops of the single-value aggregation; \<open>i\<close> is the loop index.\<close>

fun sumLoop :: "Metrics list \<Rightarrow> float64 \<Rightarrow> float64" where
  "sumLoop [] v = v"
| "sumLoop (metric # metrics) v = sumLoop metrics (v + CO2Emissions metric)"

fun maxLoop :: "nat \<Rightarrow> Metrics list \<Rightarrow> float64 \<Rightarrow> float64" where
  "maxLoop i [] v = v"
| "maxLoop i (metric # metrics) v =
     maxLoop (i + 1) metrics
       (if i = 0 \<or> CO2Emissions metric > v then CO2Emissions metric else v)"

fun minLoop :: "nat \<Rightarrow> Metrics list \<Rightarrow> float64 \<Rightarrow> float64" where
  "minLoop i [] v = v"
| "minLoop i (metric # metrics) v =
     minLoop (i + 1) metrics
       (if i = 0 \<or> CO2Emissions metric < v then CO2Emissions metric else v)"

text \<open>\<open>var value float64\<close> starts at zero; the last branch is the \<open>default\<close> case.\<close>

definition convertToSingleValueFrames :: "Metrics list \<Rightarrow> Query \<Rightarrow> error + DataFrame list" where
  "convertToSingleValueFrames metrics query =
     (let v =
            (if Aggregation query = ''sum'' then sumLoop metrics (Fin 0)
             else if Aggregation query = ''avg'' then
               (let v1 = sumLoop metrics (Fin 0)
                in if length metrics > 0 then v1 / float64_of_int (int (length metrics))
                   else v1)
             else if Aggregation query = ''max'' then maxLoop 0 metrics (Fin 0)
             else if Aggregation query = ''min'' then minLoop 0 metrics (Fin 0)
             else sumLoop metrics (Fin 0));
          valueField = \<lparr>field_Name = ''value'', field_Unit = Some ''gCO2'',
                         field_Values = Float64Values [v]\<rparr>
      in Inr [\<lparr>frame_Name = RefID query, frame_Fields = [valueField],
                frame_MetaType = FrameTypeSingleValue\<rparr>])"

definition ConvertToDataFrames :: "Metrics list \<Rightarrow> Query \<Rightarrow> error + DataFrame list" where
  "ConvertToDataFrames metrics query =
     (if length metrics = 0 then Inr []
      else if QueryType query = ''timeseries'' then convertToTimeSeriesFrames metrics query
      else if QueryType query = ''table'' then convertToTableFrames metrics query
      else if QueryType query = ''single-value'' then convertToSingleValueFrames metrics query
      else convertToTimeSeriesFrames metrics query)"

section \<open>Notions of the specification\<close>

text \<open>
  The quantities the specification speaks of, written from its words and compared with
  the code below: the CPU and memory a pod requests (the totals over its containers),
  the CPU requested on a node (the total over the pods scheduled to it), the pod model's
  energy in kWh, and the clamp of a ratio to an interval.
\<close>

definition podCPURequest :: "corev1_Pod \<Rightarrow> int" where
  "podCPURequest pod = sum_list (map cpuMilliValue (pod_Containers pod))"

definition podMemoryRequest :: "corev1_Pod \<Rightarrow> int" where
  "podMemoryRequest pod = sum_list (map memoryValue (pod_Containers pod))"

definition nodeRequestedCPU :: "corev1_Node \<Rightarrow> corev1_Pod list \<Rightarrow> int" where
  "nodeRequestedCPU node pods =
     sum_list (map podCPURequest (filter (\<lambda>pod. pod_NodeName pod = node_Name node) pods))"

definition nonNegativeRequests :: "corev1_Pod \<Rightarrow> bool" where
  "nonNegativeRequests pod =
     list_all (\<lambda>c. 0 \<le> cpuMilliValue c \<and> 0 \<le> memoryValue c) (pod_Containers pod)"

definition podModelKWh :: "int \<Rightarrow> int \<Rightarrow> real" where
  "podModelKWh cpuMillicores memoryBytes =
     ((real_of_int cpuMillicores / 1000) * 2.5 + (real_of_int memoryBytes / 2 ^ 30) * 0.375)
     / 1000"

definition clamp :: "real \<Rightarrow> real \<Rightarrow> real \<Rightarrow> real" where
  "clamp x lo hi = max lo (min hi x)"

text \<open>
  The grid intensity a calculation uses: the provider's answer, or the configured default
  when the lookup fails. The instance spec a node is given: the provider's answer, or the
  fallback spec when the lookup fails.
\<close>

definition usedGridIntensity :: "carbonCalculator \<Rightarrow> float64" where
  "usedGridIntensity c =
     (case gridIntensity c (DefaultGridIntensity (config c)) of
        Inl err \<Rightarrow> DefaultGridIntensity (config c)
      | Inr g \<Rightarrow> g)"

definition fallbackSpecs :: "string \<Rightarrow> InstanceSpecs" where
  "fallbackSpecs instanceType =
     \<lparr>InstanceType = instanceType, VCPUs = 2, MemoryGB = Fin 4, TDP = Fin 100\<rparr>"

definition resolvedSpecs :: "carbonCalculator \<Rightarrow> corev1_Node \<Rightarrow> InstanceSpecs" where
  "resolvedSpecs c node =
     (case instanceSpecs c (instanceTypeOf node) of
        Inl err \<Rightarrow> fallbackSpecs (instanceTypeOf node)
      | Inr s \<Rightarrow> s)"

text \<open>The CPU utilization of the node model: the requested share of capacity, capped at one.\<close>

definition nodeUtilization :: "corev1_Node \<Rightarrow> corev1_Pod list \<Rightarrow> float64" where
  "nodeUtilization node pods =
     (let u = Fin (real_of_int (nodeRequestedCPU node pods))
                / Fin (real_of_int (node_CapacityCpuMilli node))
      in if u > Fin 1 then Fin 1 else u)"

text \<open>The metrics of a result (none for an error), and the single-value result for a value.\<close>

definition metricsOf :: "error + Metrics list \<Rightarrow> Metrics list" where
  "metricsOf r = (case r of Inl err \<Rightarrow> [] | Inr ms \<Rightarrow> ms)"

definition singleValueFrames :: "Query \<Rightarrow> float64 \<Rightarrow> DataFrame list" where
  "singleValueFrames query v =
     [\<lparr>frame_Name = RefID query,
       frame_Fields = [\<lparr>field_Name = ''value'', field_Unit = Some ''gCO2'',
                        field_Values = Float64Values [v]\<rparr>],
       frame_MetaType = FrameTypeSingleValue\<rparr>]"

section \<open>Example inputs\<close>

text \<open>
  The fixtures of \<^verbatim>\<open>calculator_test.go\<close> (\<open>500m\<close> is 500 millicores, \<open>1Gi\<close> is \<open>2^30\<close>
  bytes, a capacity of \<open>2\<close> CPUs is 2000 millicores), with providers whose lookups fail,
  and a few inputs beside them: a node that reports no capacity, configurations whose
  PUE or default intensity was left at zero, a provider that reports a negative TDP, and
  a pod with a negative CPU quantity.
\<close>

definition testConfig :: CarbonConfig where
  "testConfig = \<lparr>GridIntensityAPIKey = [], ElectricityMapsAPIKey = [],
     DefaultGridIntensity = Fin 500.0, PUE = Fin 1.5,
     EnableNetworkAccounting = True, EnableStorageAccounting = True\<rparr>"

definition createPodWithResources :: "string \<Rightarrow> string \<Rightarrow> int \<Rightarrow> int \<Rightarrow> corev1_Pod" where
  "createPodWithResources name namespace cpu memory =
     \<lparr>pod_Name = name, pod_Namespace = namespace, pod_Labels = [''app'' \<mapsto> ''test-app''],
      pod_NodeName = ''test-node-1'',
      pod_Containers = [\<lparr>cpuMilliValue = cpu, memoryValue = memory\<rparr>]\<rparr>"

definition testPod1 :: corev1_Pod where
  "testPod1 = createPodWithResources ''test-pod-1'' ''production'' 500 (2 ^ 30)"

definition testPods :: "corev1_Pod list" where
  "testPods =
     [createPodWithResources ''test-pod-1'' ''production'' 500 (2 ^ 30),
      createPodWithResources ''test-pod-2'' ''production'' 250 (2 ^ 29),
      createPodWithResources ''test-pod-3'' ''development'' 100 (2 ^ 28)]"

definition highCPUPod :: corev1_Pod where
  "highCPUPod = createPodWithResources ''high-cpu-pod'' ''test'' 1000 (2 ^ 30)"

definition lowCPUPod :: corev1_Pod where
  "lowCPUPod = createPodWithResources ''low-cpu-pod'' ''test'' 100 (2 ^ 30)"

definition unscheduledPod :: corev1_Pod where
  "unscheduledPod = \<lparr>pod_Name = ''unscheduled-pod'', pod_Namespace = ''test'',
     pod_Labels = Map.empty, pod_NodeName = [], pod_Containers = []\<rparr>"

definition testNode1 :: corev1_Node where
  "testNode1 = \<lparr>node_Name = ''test-node-1'',
     node_Labels = [''beta.kubernetes.io/instance-type'' \<mapsto> ''m5.large'',
                    ''topology.kubernetes.io/zone'' \<mapsto> ''us-west-2a''],
     node_CapacityCpuMilli = 2000, node_CapacityMemory = 8 * 2 ^ 30\<rparr>"

definition bareNode :: corev1_Node where
  "bareNode = \<lparr>node_Name = ''bare-node'', node_Labels = Map.empty,
     node_CapacityCpuMilli = 0, node_CapacityMemory = 0\<rparr>"

definition testNamespace :: corev1_Namespace where
  "testNamespace = \<lparr>ns_Name = ''production'', ns_Labels = [''environment'' \<mapsto> ''test'']\<rparr>"

definition failingCalculator :: carbonCalculator where
  "failingCalculator = \<lparr>config = testConfig,
     gridIntensity = (\<lambda>d. Inl (ProviderError ''grid intensity unavailable'')),
     instanceSpecs = (\<lambda>t. Inl (ProviderError ''unknown instance type''))\<rparr>"

definition zeroPUECalculator :: carbonCalculator where
  "zeroPUECalculator = failingCalculator\<lparr>config := testConfig\<lparr>PUE := Fin 0\<rparr>\<rparr>"

definition zeroIntensityCalculator :: carbonCalculator where
  "zeroIntensityCalculator =
     failingCalculator\<lparr>config := testConfig\<lparr>DefaultGridIntensity := Fin 0\<rparr>\<rparr>"

definition negativeTDPCalculator :: carbonCalculator where
  "negativeTDPCalculator = failingCalculator\<lparr>instanceSpecs :=
     (\<lambda>t. Inr \<lparr>InstanceType = t, VCPUs = 2, MemoryGB = Fin 8, TDP = Fin (- 100)\<rparr>)\<rparr>"

definition overdrawnPod :: corev1_Pod where
  "overdrawnPod = createPodWithResources ''negative-pod'' ''test'' (- 2000) 0"

definition testMetrics :: "Metrics list" where
  "testMetrics =
     [emptyMetrics\<lparr>Timestamp := - 120, ResourceType := ''pod'', ResourceName := ''test-pod-1'',
        Namespace := ''production'', CO2Emissions := Fin 100.5, EnergyConsumption := Fin 0.2,
        GridIntensity := Fin 500, Source := ''calculated''\<rparr>,
      emptyMetrics\<lparr>Timestamp := - 60, ResourceType := ''pod'', ResourceName := ''test-pod-1'',
        Namespace := ''production'', CO2Emissions := Fin 105.2, EnergyConsumption := Fin 0.21,
        GridIntensity := Fin 502, Source := ''calculated''\<rparr>]"

definition testQuery :: "string \<Rightarrow> string \<Rightarrow> Query" where
  "testQuery queryType aggregation =
     \<lparr>RefID = ''A'', QueryType = queryType, query_ResourceType = ''pod'',
      Aggregation = aggregation, GroupBy = [], Filters = [],
      TimeRange_From = [], TimeRange_To = []\<rparr>"

text \<open>
  Two metric lists made of what the calculator itself returns: the cluster metric of a
  cluster whose one node reports no capacity (its mass is NaN) and the metric of the
  first test pod, in both orders.
\<close>

definition nanFirstMetrics :: "Metrics list" where
  "nanFirstMetrics =
     metricsOf (CalculateClusterCarbon failingCalculator 0 [bareNode] [])
     @ metricsOf (CalculatePodCarbon failingCalculator 0 testPod1)"

definition nanLastMetrics :: "Metrics list" where
  "nanLastMetrics =
     metricsOf (CalculatePodCarbon failingCalculator 0 testPod1)
     @ metricsOf (CalculateClusterCarbon failingCalculator 0 [bareNode] [])"

section \<open>Arithmetic and loops\<close>

subsection \<open>float64 on finite values\<close>

lemma Fin_plus [simp]: "Fin a + Fin b = Fin (a + b)"
  by (simp add: plus_float64_def)

lemma Fin_times [simp]: "Fin a * Fin b = Fin (a * b)"
  by (simp add: times_float64_def)

lemma Fin_divide [simp]: "b \<noteq> 0 \<Longrightarrow> Fin a / Fin b = Fin (a / b)"
  by (simp add: divide_float64_def)

lemma Fin_less [simp]: "(Fin a < Fin b) = (a < b)"
  by (simp add: less_float64_def)

lemma Fin_less_eq [simp]: "(Fin a \<le> Fin b) = (a \<le> b)"
  by (simp add: less_eq_float64_def)

subsection \<open>Equality and order of float64\<close>

text \<open>
  \<open>==\<close> holds of a value against itself unless it is NaN. Away from NaN the order is
  total, and it is transitive everywhere; no arithmetic is involved.
\<close>

lemma feq_same: "feq x x = (\<not> isNaN x)"
  by (cases x) simp_all

lemma fle_refl: "\<not> isNaN x \<Longrightarrow> x \<le> x"
  by (cases x) (simp_all add: less_eq_float64_def)

lemma flt_imp_fle: "x < y \<Longrightarrow> x \<le> (y::float64)"
  by (cases x; cases y) (simp_all add: less_eq_float64_def less_float64_def)

lemma not_flt_imp_fle: "\<not> isNaN x \<Longrightarrow> \<not> isNaN y \<Longrightarrow> \<not> (x < y) \<Longrightarrow> y \<le> x"
  by (cases x; cases y) (simp_all add: less_eq_float64_def less_float64_def)

lemma fle_trans: "x \<le> y \<Longrightarrow> y \<le> z \<Longrightarrow> x \<le> (z::float64)"
  by (cases x; cases y; cases z) (simp_all add: less_eq_float64_def)

subsection \<open>The request totals\<close>

text \<open>Requests are integers, so the running totals stay finite and are the exact sums.\<close>

lemma sumContainers_Fin:
  "sumContainers cs (Fin a, Fin b) =
     (Fin (a + real_of_int (sum_list (map cpuMilliValue cs))),
      Fin (b + real_of_int (sum_list (map memoryValue cs))))"
  by (induction cs arbitrary: a b) (simp_all add: float64_of_int_def add.assoc)

lemma sumNodePods_Fin:
  "sumNodePods name pods (Fin a, Fin b) =
     (Fin (a + real_of_int (sum_list (map podCPURequest
                 (filter (\<lambda>pod. pod_NodeName pod = name) pods)))),
      Fin (b + real_of_int (sum_list (map podMemoryRequest
                 (filter (\<lambda>pod. pod_NodeName pod = name) pods)))))"
  by (induction pods arbitrary: a b)
     (simp_all add: sumContainers_Fin podCPURequest_def podMemoryRequest_def add.assoc)

subsection \<open>The pod estimator and the pod calculation\<close>

lemma calculatePodEnergyConsumption_scheduled:
  "pod_NodeName pod \<noteq> [] \<Longrightarrow>
   calculatePodEnergyConsumption c pod =
     Inr (Fin (podModelKWh (podCPURequest pod) (podMemoryRequest pod)))"
  by (simp add: calculatePodEnergyConsumption_def sumContainers_Fin Let_def
      podCPURequest_def podMemoryRequest_def podModelKWh_def)

lemma CalculatePodCarbon_scheduled:
  "pod_NodeName pod \<noteq> [] \<Longrightarrow>
   CalculatePodCarbon c now pod =
     Inr [emptyMetrics\<lparr>Timestamp := now, ResourceType := ''pod'',
            ResourceName := pod_Name pod, Namespace := pod_Namespace pod,
            NodeName := pod_NodeName pod,
            CO2Emissions := Fin (podModelKWh (podCPURequest pod) (podMemoryRequest pod))
                              * PUE (config c) * usedGridIntensity c,
            EnergyConsumption := Fin (podModelKWh (podCPURequest pod) (podMemoryRequest pod))
                              * PUE (config c),
            GridIntensity := usedGridIntensity c,
            Source := ''calculated'', Labels := pod_Labels pod\<rparr>]"
  by (simp add: CalculatePodCarbon_def calculatePodEnergyConsumption_scheduled Let_def
      usedGridIntensity_def)

text \<open>
  Within the bounds below, the exact energies of two pods with different CPU totals and
  the same memory total differ by a share of at least \<open>2^-41\<close> of the larger one. That is
  4096 times the unit roundoff \<open>2^-53\<close> of binary64, so the six roundings of the code's
  expression (each of relative error at most \<open>2^-53\<close>) cannot close the gap; and with
  non-negative requests and totals below \<open>2^53\<close> the conversions and the running totals
  are exact in binary64 as well.
\<close>

lemma nonNegativeRequests_totals:
  "nonNegativeRequests pod \<Longrightarrow> 0 \<le> podCPURequest pod \<and> 0 \<le> podMemoryRequest pod"
  by (auto simp: nonNegativeRequests_def podCPURequest_def podMemoryRequest_def list_all_iff
      intro!: sum_list_nonneg)

lemma podModelKWh_margin:
  assumes "0 \<le> cpu2" and "cpu2 < cpu1" and "cpu1 \<le> 2 ^ 40" and "0 \<le> mem" and "mem \<le> 2 ^ 50"
  shows "podModelKWh cpu2 mem \<le> (1 - 1 / 2 ^ 41) * podModelKWh cpu1 mem"
proof -
  have a: "real_of_int cpu2 + 1 \<le> real_of_int cpu1"
    using assms(2) by linarith
  have b: "real_of_int cpu1 \<le> 2 ^ 40"
    using assms(3) by (metis of_int_le_iff of_int_numeral of_int_power)
  have c: "real_of_int mem \<le> 2 ^ 50"
    using assms(5) by (metis of_int_le_iff of_int_numeral of_int_power)
  have d: "0 \<le> real_of_int mem"
    using assms(4) by simp
  show ?thesis
    using a b c d by (simp add: podModelKWh_def field_simps)
qed

lemma podModelKWh_pos: "0 < cpu \<Longrightarrow> 0 \<le> mem \<Longrightarrow> 0 < podModelKWh cpu mem"
  by (simp add: podModelKWh_def add_pos_nonneg)

subsection \<open>The node estimator\<close>

lemma calculateNodeEnergyConsumption_eq:
  "calculateNodeEnergyConsumption c node pods =
     Inr ((TDP (resolvedSpecs c node) * (Fin 0.3 + Fin 0.7 * nodeUtilization node pods))
          / Fin 1000)"
  by (simp add: calculateNodeEnergyConsumption_def Let_def sumNodePods_Fin resolvedSpecs_def
      fallbackSpecs_def nodeUtilization_def nodeRequestedCPU_def float64_of_int_def
      split: sum.splits)




subsection \<open>The aggregate calculations\<close>

lemma usedGridIntensity_failed:
  "gridIntensity c (DefaultGridIntensity (config c)) = Inl err \<Longrightarrow>
   usedGridIntensity c = DefaultGridIntensity (config c)"
  by (simp add: usedGridIntensity_def)

lemma CalculateClusterCarbon_eq:
  "CalculateClusterCarbon c now nodes pods =
     Inr [emptyMetrics\<lparr>Timestamp := now, ResourceType := ''cluster'',
            ResourceName := ''cluster'',
            CO2Emissions := sumNodeEnergies c nodes pods (Fin 0) * PUE (config c)
                              * usedGridIntensity c,
            EnergyConsumption := sumNodeEnergies c nodes pods (Fin 0) * PUE (config c),
            GridIntensity := usedGridIntensity c, Source := ''calculated''\<rparr>]"
  by (simp add: CalculateClusterCarbon_def Let_def usedGridIntensity_def)

lemma CalculateNamespaceCarbon_eq:
  "CalculateNamespaceCarbon c now namespace pods =
     Inr [emptyMetrics\<lparr>Timestamp := now, ResourceType := ''namespace'',
            ResourceName := ns_Name namespace, Namespace := ns_Name namespace,
            CO2Emissions :=
              sumPodEnergies c (filter (\<lambda>pod. pod_Namespace pod = ns_Name namespace) pods) (Fin 0)
                * PUE (config c) * usedGridIntensity c,
            EnergyConsumption :=
              sumPodEnergies c (filter (\<lambda>pod. pod_Namespace pod = ns_Name namespace) pods) (Fin 0)
                * PUE (config c),
            GridIntensity := usedGridIntensity c, Source := ''calculated'',
            Labels := ns_Labels namespace\<rparr>]"
  by (simp add: CalculateNamespaceCarbon_def Let_def usedGridIntensity_def)

lemma CalculateNodeCarbon_Inr:
  "\<exists>m. CalculateNodeCarbon c now node pods = Inr [m] \<and>
       GridIntensity m = usedGridIntensity c \<and> Source m = ''calculated''"
  by (simp add: CalculateNodeCarbon_def calculateNodeEnergyConsumption_eq Let_def
      usedGridIntensity_def)

subsection \<open>The aggregation loops\<close>

text \<open>The sum loop adds the values to the running value from left to right.\<close>

lemma sumLoop_foldl: "sumLoop metrics v = foldl (+) v (map CO2Emissions metrics)"
  by (induction metrics arbitrary: v) simp_all

text \<open>
  Past the first iteration, on values none of which is NaN, the maximum loop returns the
  running value or one of the remaining values, and nothing it has seen is greater.
\<close>

lemma maxLoop_max:
  assumes "\<forall>m\<in>set metrics. \<not> isNaN (CO2Emissions m)" and "\<not> isNaN v" and "0 < i"
  shows "(maxLoop i metrics v = v \<or> maxLoop i metrics v \<in> CO2Emissions ` set metrics) \<and>
         v \<le> maxLoop i metrics v \<and>
         (\<forall>m\<in>set metrics. CO2Emissions m \<le> maxLoop i metrics v)"
  using assms
proof (induction metrics arbitrary: v i)
  case Nil
  then show ?case by (simp add: fle_refl)
next
  case (Cons m metrics)
  let ?x = "CO2Emissions m"
  let ?v' = "if v < ?x then ?x else v"
  have x: "\<not> isNaN ?x" and rest: "\<forall>m\<in>set metrics. \<not> isNaN (CO2Emissions m)"
    using Cons.prems(1) by simp_all
  have v': "\<not> isNaN ?v'" using x Cons.prems(2) by simp
  have step: "maxLoop i (m # metrics) v = maxLoop (i + 1) metrics ?v'"
    using Cons.prems(3) by simp
  have vv': "v \<le> ?v'"
    using Cons.prems(2) by (simp add: flt_imp_fle fle_refl)
  have xv': "?x \<le> ?v'"
    using x Cons.prems(2) by (simp add: not_flt_imp_fle fle_refl)
  from Cons.IH [OF rest v', of "i + 1"]
  have ih: "maxLoop (i + 1) metrics ?v' = ?v' \<or>
            maxLoop (i + 1) metrics ?v' \<in> CO2Emissions ` set metrics"
      "?v' \<le> maxLoop (i + 1) metrics ?v'"
      "\<forall>m\<in>set metrics. CO2Emissions m \<le> maxLoop (i + 1) metrics ?v'"
    by simp_all
  have 1: "maxLoop i (m # metrics) v = v \<or>
           maxLoop i (m # metrics) v \<in> CO2Emissions ` set (m # metrics)"
    using ih(1) unfolding step by (cases "v < ?x") auto
  have 2: "v \<le> maxLoop i (m # metrics) v"
    unfolding step using vv' ih(2) by (rule fle_trans)
  have 3: "?x \<le> maxLoop i (m # metrics) v"
    unfolding step using xv' ih(2) by (rule fle_trans)
  from 1 2 3 ih(3) show ?case
    unfolding step by simp
qed

lemma minLoop_min:
  assumes "\<forall>m\<in>set metrics. \<not> isNaN (CO2Emissions m)" and "\<not> isNaN v" and "0 < i"
  shows "(minLoop i metrics v = v \<or> minLoop i metrics v \<in> CO2Emissions ` set metrics) \<and>
         minLoop i metrics v \<le> v \<and>
         (\<forall>m\<in>set metrics. minLoop i metrics v \<le> CO2Emissions m)"
  using assms
proof (induction metrics arbitrary: v i)
  case Nil
  then show ?case by (simp add: fle_refl)
next
  case (Cons m metrics)
  let ?x = "CO2Emissions m"
  let ?v' = "if ?x < v then ?x else v"
  have x: "\<not> isNaN ?x" and rest: "\<forall>m\<in>set metrics. \<not> isNaN (CO2Emissions m)"
    using Cons.prems(1) by simp_all
  have v': "\<not> isNaN ?v'" using x Cons.prems(2) by simp
  have step: "minLoop i (m # metrics) v = minLoop (i + 1) metrics ?v'"
    using Cons.prems(3) by simp
  have vv': "?v' \<le> v"
    using Cons.prems(2) by (simp add: flt_imp_fle fle_refl)
  have xv': "?v' \<le> ?x"
    using x Cons.prems(2) by (simp add: not_flt_imp_fle fle_refl)
  from Cons.IH [OF rest v', of "i + 1"]
  have ih: "minLoop (i + 1) metrics ?v' = ?v' \<or>
            minLoop (i + 1) metrics ?v' \<in> CO2Emissions ` set metrics"
      "minLoop (i + 1) metrics ?v' \<le> ?v'"
      "\<forall>m\<in>set metrics. minLoop (i + 1) metrics ?v' \<le> CO2Emissions m"
    by simp_all
  have 1: "minLoop i (m # metrics) v = v \<or>
           minLoop i (m # metrics) v \<in> CO2Emissions ` set (m # metrics)"
    using ih(1) unfolding step by (cases "?x < v") auto
  have 2: "minLoop i (m # metrics) v \<le> v"
    unfolding step using ih(2) vv' by (rule fle_trans)
  have 3: "minLoop i (m # metrics) v \<le> ?x"
    unfolding step using ih(2) xv' by (rule fle_trans)
  from 1 2 3 ih(3) show ?case
    unfolding step by simp
qed

text \<open>The first iteration overwrites the initial zero, whatever the first value is.\<close>

lemma maxLoop_0_max:
  assumes "\<forall>m\<in>set metrics. \<not> isNaN (CO2Emissions m)" and "metrics \<noteq> []"
  shows "maxLoop 0 metrics (Fin 0) \<in> set (map CO2Emissions metrics) \<and>
         (\<forall>x\<in>set (map CO2Emissions metrics). x \<le> maxLoop 0 metrics (Fin 0))"
proof -
  from assms(2) obtain m ms where e: "metrics = m # ms"
    by (cases metrics) auto
  have x: "\<not> isNaN (CO2Emissions m)" and rest: "\<forall>m\<in>set ms. \<not> isNaN (CO2Emissions m)"
    using assms(1) e by simp_all
  from maxLoop_max [OF rest x, of 1] show ?thesis
    unfolding e by auto
qed

lemma minLoop_0_min:
  assumes "\<forall>m\<in>set metrics. \<not> isNaN (CO2Emissions m)" and "metrics \<noteq> []"
  shows "minLoop 0 metrics (Fin 0) \<in> set (map CO2Emissions metrics) \<and>
         (\<forall>x\<in>set (map CO2Emissions metrics). minLoop 0 metrics (Fin 0) \<le> x)"
proof -
  from assms(2) obtain m ms where e: "metrics = m # ms"
    by (cases metrics) auto
  have x: "\<not> isNaN (CO2Emissions m)" and rest: "\<forall>m\<in>set ms. \<not> isNaN (CO2Emissions m)"
    using assms(1) e by simp_all
  from minLoop_min [OF rest x, of 1] show ?thesis
    unfolding e by auto
qed

section \<open>The claims\<close>

subsection \<open>C1: the mass identity\<close>

text \<open>
  C1, as amended. For every metric produced by any of the four scope calculations
  (\<open>CalculateClusterCarbon\<close>, \<open>CalculateNamespaceCarbon\<close>, \<open>CalculateNodeCarbon\<close>,
  \<open>CalculatePodCarbon\<close>), the comparison
  \<open>CO2Emissions == EnergyConsumption * GridIntensity\<close> of the stored fields (the energy
  after PUE) holds exactly when that product is not NaN, and the mass is NaN exactly when
  the product is.
\<close>

theorem mass_identity:
  "(\<forall>ms. CalculateClusterCarbon c now nodes pods = Inr ms \<longrightarrow>
      (\<forall>m\<in>set ms.
         feq (CO2Emissions m) (EnergyConsumption m * GridIntensity m)
           = (\<not> isNaN (EnergyConsumption m * GridIntensity m)) \<and>
         isNaN (CO2Emissions m) = isNaN (EnergyConsumption m * GridIntensity m))) \<and>
   (\<forall>ms. CalculateNamespaceCarbon c now namespace pods = Inr ms \<longrightarrow>
      (\<forall>m\<in>set ms.
         feq (CO2Emissions m) (EnergyConsumption m * GridIntensity m)
           = (\<not> isNaN (EnergyConsumption m * GridIntensity m)) \<and>
         isNaN (CO2Emissions m) = isNaN (EnergyConsumption m * GridIntensity m))) \<and>
   (\<forall>ms. CalculateNodeCarbon c now node pods = Inr ms \<longrightarrow>
      (\<forall>m\<in>set ms.
         feq (CO2Emissions m) (EnergyConsumption m * GridIntensity m)
           = (\<not> isNaN (EnergyConsumption m * GridIntensity m)) \<and>
         isNaN (CO2Emissions m) = isNaN (EnergyConsumption m * GridIntensity m))) \<and>
   (\<forall>ms. CalculatePodCarbon c now pod = Inr ms \<longrightarrow>
      (\<forall>m\<in>set ms.
         feq (CO2Emissions m) (EnergyConsumption m * GridIntensity m)
           = (\<not> isNaN (EnergyConsumption m * GridIntensity m)) \<and>
         isNaN (CO2Emissions m) = isNaN (EnergyConsumption m * GridIntensity m)))"
proof (intro conjI allI impI ballI)
  fix ms m
  assume "CalculateClusterCarbon c now nodes pods = Inr ms" "m \<in> set ms"
  then have "CO2Emissions m = EnergyConsumption m * GridIntensity m"
    by (auto simp: CalculateClusterCarbon_def Let_def)
  then show "feq (CO2Emissions m) (EnergyConsumption m * GridIntensity m)
           = (\<not> isNaN (EnergyConsumption m * GridIntensity m))"
    and "isNaN (CO2Emissions m) = isNaN (EnergyConsumption m * GridIntensity m)"
    by (simp_all add: feq_same)
next
  fix ms m
  assume "CalculateNamespaceCarbon c now namespace pods = Inr ms" "m \<in> set ms"
  then have "CO2Emissions m = EnergyConsumption m * GridIntensity m"
    by (auto simp: CalculateNamespaceCarbon_def Let_def)
  then show "feq (CO2Emissions m) (EnergyConsumption m * GridIntensity m)
           = (\<not> isNaN (EnergyConsumption m * GridIntensity m))"
    and "isNaN (CO2Emissions m) = isNaN (EnergyConsumption m * GridIntensity m)"
    by (simp_all add: feq_same)
next
  fix ms m
  assume "CalculateNodeCarbon c now node pods = Inr ms" "m \<in> set ms"
  then have "CO2Emissions m = EnergyConsumption m * GridIntensity m"
    by (auto simp: CalculateNodeCarbon_def Let_def split: sum.splits)
  then show "feq (CO2Emissions m) (EnergyConsumption m * GridIntensity m)
           = (\<not> isNaN (EnergyConsumption m * GridIntensity m))"
    and "isNaN (CO2Emissions m) = isNaN (EnergyConsumption m * GridIntensity m)"
    by (simp_all add: feq_same)
next
  fix ms m
  assume "CalculatePodCarbon c now pod = Inr ms" "m \<in> set ms"
  then have "CO2Emissions m = EnergyConsumption m * GridIntensity m"
    by (auto simp: CalculatePodCarbon_def Let_def split: sum.splits)
  then show "feq (CO2Emissions m) (EnergyConsumption m * GridIntensity m)
           = (\<not> isNaN (EnergyConsumption m * GridIntensity m))"
    and "isNaN (CO2Emissions m) = isNaN (EnergyConsumption m * GridIntensity m)"
    by (simp_all add: feq_same)
qed

text \<open>The four calculations on the test fixtures: one metric each, none NaN, and \<open>==\<close> holds.\<close>

theorem mass_identity_witness:
  "(\<exists>m. CalculateClusterCarbon failingCalculator 0 [testNode1] testPods = Inr [m] \<and>
        EnergyConsumption m = Fin 0.089625 \<and> GridIntensity m = Fin 500 \<and>
        feq (CO2Emissions m) (EnergyConsumption m * GridIntensity m)) \<and>
   (\<exists>m. CalculateNamespaceCarbon failingCalculator 0 testNamespace testPods = Inr [m] \<and>
        EnergyConsumption m = Fin 0.00365625 \<and> GridIntensity m = Fin 500 \<and>
        feq (CO2Emissions m) (EnergyConsumption m * GridIntensity m)) \<and>
   (\<exists>m. CalculateNodeCarbon failingCalculator 0 testNode1 testPods = Inr [m] \<and>
        EnergyConsumption m = Fin 0.089625 \<and> GridIntensity m = Fin 500 \<and>
        feq (CO2Emissions m) (EnergyConsumption m * GridIntensity m)) \<and>
   (\<exists>m. CalculatePodCarbon failingCalculator 0 testPod1 = Inr [m] \<and>
        EnergyConsumption m = Fin 0.0024375 \<and> GridIntensity m = Fin 500 \<and>
        feq (CO2Emissions m) (EnergyConsumption m * GridIntensity m))"
proof -
  have 1: "\<exists>m. CalculateClusterCarbon failingCalculator 0 [testNode1] testPods = Inr [m] \<and>
        EnergyConsumption m = Fin 0.089625 \<and> GridIntensity m = Fin 500"
    by (simp add: CalculateClusterCarbon_def calculateNodeEnergyConsumption_def Let_def
        failingCalculator_def testConfig_def testNode1_def testPods_def
        createPodWithResources_def float64_of_int_def instanceTypeOf_def)
  have 2: "\<exists>m. CalculateNamespaceCarbon failingCalculator 0 testNamespace testPods = Inr [m] \<and>
        EnergyConsumption m = Fin 0.00365625 \<and> GridIntensity m = Fin 500"
    by (simp add: CalculateNamespaceCarbon_def calculatePodEnergyConsumption_def Let_def
        failingCalculator_def testConfig_def testNamespace_def testPods_def
        createPodWithResources_def float64_of_int_def)
  have 3: "\<exists>m. CalculateNodeCarbon failingCalculator 0 testNode1 testPods = Inr [m] \<and>
        EnergyConsumption m = Fin 0.089625 \<and> GridIntensity m = Fin 500"
    by (simp add: CalculateNodeCarbon_def calculateNodeEnergyConsumption_def Let_def
        failingCalculator_def testConfig_def testNode1_def testPods_def
        createPodWithResources_def float64_of_int_def instanceTypeOf_def)
  have 4: "\<exists>m. CalculatePodCarbon failingCalculator 0 testPod1 = Inr [m] \<and>
        EnergyConsumption m = Fin 0.0024375 \<and> GridIntensity m = Fin 500"
    by (simp add: CalculatePodCarbon_def calculatePodEnergyConsumption_def Let_def
        failingCalculator_def testConfig_def testPod1_def createPodWithResources_def
        float64_of_int_def)
  from mass_identity [of failingCalculator 0 "[testNode1]" testPods testNamespace testNode1
      testPod1] 1 2 3 4
  show ?thesis by fastforce
qed

text \<open>
  The claim as first stated, for every metric, fails where the code produces NaN: in a
  cluster with a node that reports no CPU capacity and runs no pod, that node's energy is
  0/0, the total energy and the mass are NaN, and \<open>==\<close> is false on them.
\<close>

theorem mass_identity_nan_counterexample:
  "map EnergyConsumption
     (metricsOf (CalculateClusterCarbon failingCalculator 0 [testNode1, bareNode] testPods))
     = [NaN] \<and>
   map GridIntensity
     (metricsOf (CalculateClusterCarbon failingCalculator 0 [testNode1, bareNode] testPods))
     = [Fin 500] \<and>
   map CO2Emissions
     (metricsOf (CalculateClusterCarbon failingCalculator 0 [testNode1, bareNode] testPods))
     = [NaN] \<and>
   \<not> feq NaN (NaN * Fin 500)"
  by (simp add: CalculateClusterCarbon_def calculateNodeEnergyConsumption_def Let_def metricsOf_def
        failingCalculator_def testConfig_def testNode1_def bareNode_def testPods_def
        createPodWithResources_def float64_of_int_def instanceTypeOf_def emptyMetrics_def
        divide_float64_def times_float64_def plus_float64_def less_float64_def)

subsection \<open>C2: the pod model\<close>



subsection \<open>C5: a pod without a node\<close>

text \<open>
  C5. For every pod whose node name is empty, \<open>CalculatePodCarbon\<close> returns an error and
  no metric (the error of \<open>calculatePodEnergyConsumption\<close>, passed on); it never returns a
  zero-energy metric for such a pod.
\<close>

theorem unscheduled_pod_error:
  "pod_NodeName pod = [] \<Longrightarrow>
   calculatePodEnergyConsumption c pod
     = Inl (PodNotScheduled (pod_Namespace pod) (pod_Name pod)) \<and>
   CalculatePodCarbon c now pod = Inl (PodNotScheduled (pod_Namespace pod) (pod_Name pod))"
  by (simp add: CalculatePodCarbon_def calculatePodEnergyConsumption_def)

theorem unscheduled_pod_error_witness:
  "pod_NodeName unscheduledPod = [] \<and>
   CalculatePodCarbon failingCalculator 0 unscheduledPod =
     Inl (PodNotScheduled ''test'' ''unscheduled-pod'')"
proof -
  have h: "pod_NodeName unscheduledPod = []"
    by (simp add: unscheduledPod_def)
  from unscheduled_pod_error [OF h, of failingCalculator 0] h show ?thesis
    by (simp add: unscheduledPod_def)
qed

subsection \<open>C8: no metrics, no frames\<close>

text \<open>
  C8. For every query, \<open>ConvertToDataFrames\<close> applied to the empty metric list returns
  the empty list of frames and no error, whatever the output shape; it never returns a
  frame with zero rows.
\<close>

theorem empty_metrics_no_frames: "ConvertToDataFrames [] query = Inr []"
  by (simp add: ConvertToDataFrames_def)

theorem empty_metrics_no_frames_witness:
  "ConvertToDataFrames [] (testQuery ''timeseries'' ''sum'') = Inr [] \<and>
   ConvertToDataFrames [] (testQuery ''table'' ''sum'') = Inr [] \<and>
   ConvertToDataFrames [] (testQuery ''single-value'' ''avg'') = Inr [] \<and>
   ConvertToDataFrames [] (testQuery ''heatmap'' ''sum'') = Inr []"
  using empty_metrics_no_frames [of "testQuery ''timeseries'' ''sum''"]
    empty_metrics_no_frames [of "testQuery ''table'' ''sum''"]
    empty_metrics_no_frames [of "testQuery ''single-value'' ''avg''"]
    empty_metrics_no_frames [of "testQuery ''heatmap'' ''sum''"]
  by simp

subsection \<open>C3: the node model\<close>




text \<open>
  The other hypotheses are needed as well. The code caps the ratio from above only: a
  negative total request (the quantity type is signed) takes the factor below 0.3, where
  the clamp of the claim stays at zero. And the bound needs a TDP of at least zero: with
  a negative TDP the idle floor lies above TDP / 1000.
\<close>

lemma node_model_negative_request_example:
  "nodeRequestedCPU testNode1 [overdrawnPod] = - 2000 \<and>
   calculateNodeEnergyConsumption failingCalculator testNode1 [overdrawnPod]
     = Inr (Fin (100 * (0.3 + 0.7 * (- 1)) / 1000)) \<and>
   clamp (- 2000 / 2000) 0 1 = 0"
  by (simp add: calculateNodeEnergyConsumption_def Let_def failingCalculator_def
        testNode1_def overdrawnPod_def createPodWithResources_def float64_of_int_def
        instanceTypeOf_def nodeRequestedCPU_def podCPURequest_def clamp_def)

lemma node_model_negative_tdp_example:
  "calculateNodeEnergyConsumption negativeTDPCalculator testNode1 [] = Inr (Fin (- 0.03)) \<and>
   Fin (- 100 / 1000) < Fin (- 0.03)"
  by (simp add: calculateNodeEnergyConsumption_def Let_def failingCalculator_def
        negativeTDPCalculator_def testNode1_def float64_of_int_def instanceTypeOf_def)

subsection \<open>C4: the source tag\<close>

text \<open>
  C4, as amended. Every metric produced by any of the four scope calculations has the
  \<open>Source\<close> field \<open>calculated\<close>, whether or not a fallback value was substituted.
\<close>

theorem source_always_calculated:
  "(\<forall>ms. CalculateClusterCarbon c now nodes pods = Inr ms \<longrightarrow>
      (\<forall>m\<in>set ms. Source m = ''calculated'')) \<and>
   (\<forall>ms. CalculateNamespaceCarbon c now namespace pods = Inr ms \<longrightarrow>
      (\<forall>m\<in>set ms. Source m = ''calculated'')) \<and>
   (\<forall>ms. CalculateNodeCarbon c now node pods = Inr ms \<longrightarrow>
      (\<forall>m\<in>set ms. Source m = ''calculated'')) \<and>
   (\<forall>ms. CalculatePodCarbon c now pod = Inr ms \<longrightarrow>
      (\<forall>m\<in>set ms. Source m = ''calculated''))"
proof (intro conjI allI impI ballI)
  fix ms m
  assume "CalculateClusterCarbon c now nodes pods = Inr ms" "m \<in> set ms"
  then show "Source m = ''calculated''"
    by (auto simp: CalculateClusterCarbon_eq)
next
  fix ms m
  assume "CalculateNamespaceCarbon c now namespace pods = Inr ms" "m \<in> set ms"
  then show "Source m = ''calculated''"
    by (auto simp: CalculateNamespaceCarbon_eq)
next
  fix ms m
  assume "CalculateNodeCarbon c now node pods = Inr ms" "m \<in> set ms"
  with CalculateNodeCarbon_Inr [of c now node pods] show "Source m = ''calculated''"
    by auto
next
  fix ms m
  assume "CalculatePodCarbon c now pod = Inr ms" "m \<in> set ms"
  then show "Source m = ''calculated''"
    by (auto simp: CalculatePodCarbon_def Let_def split: sum.splits)
qed

theorem source_always_calculated_witness:
  "map Source (metricsOf (CalculateClusterCarbon failingCalculator 0 [testNode1] testPods))
     = [''calculated''] \<and>
   map Source (metricsOf (CalculatePodCarbon failingCalculator 0 testPod1)) = [''calculated'']"
proof -
  have 1: "\<exists>m. CalculateClusterCarbon failingCalculator 0 [testNode1] testPods = Inr [m]"
    by (simp add: CalculateClusterCarbon_eq)
  have 2: "\<exists>m. CalculatePodCarbon failingCalculator 0 testPod1 = Inr [m]"
    by (simp add: CalculatePodCarbon_scheduled testPod1_def createPodWithResources_def)
  from source_always_calculated
    [of failingCalculator 0 "[testNode1]" testPods testNamespace testNode1 testPod1] 1 2
  show ?thesis by (auto simp: metricsOf_def)
qed

text \<open>
  The claim as first stated asks for \<open>estimated\<close> once a fallback is substituted. Here
  the grid-intensity lookup fails, the metric carries the default intensity, and its
  source is still \<open>calculated\<close>.
\<close>

theorem source_estimated_counterexample:
  "gridIntensity failingCalculator (DefaultGridIntensity (config failingCalculator))
     = Inl (ProviderError ''grid intensity unavailable'') \<and>
   map GridIntensity (metricsOf (CalculatePodCarbon failingCalculator 0 testPod1))
     = [DefaultGridIntensity (config failingCalculator)] \<and>
   map Source (metricsOf (CalculatePodCarbon failingCalculator 0 testPod1)) = [''calculated''] \<and>
   map Source (metricsOf (CalculatePodCarbon failingCalculator 0 testPod1)) \<noteq> [''estimated'']"
  by (simp add: CalculatePodCarbon_def calculatePodEnergyConsumption_def Let_def metricsOf_def
      failingCalculator_def testPod1_def createPodWithResources_def emptyMetrics_def)

subsection \<open>C6: a failed grid-intensity lookup\<close>

text \<open>
  C6. Whatever the injected grid-intensity provider does, a failed lookup never makes a
  scope calculation fail: when the provider returns an error, the cluster, namespace and
  node calculations, and the pod calculation of a pod that has a node, each emit their
  one metric with the configured default intensity in it. A pod without a node fails
  before the lookup, with the same result under every provider.
\<close>

theorem grid_lookup_failure_not_fatal:
  assumes "gridIntensity c (DefaultGridIntensity (config c)) = Inl err"
  shows
   "(\<exists>m. CalculateClusterCarbon c now nodes pods = Inr [m] \<and>
         GridIntensity m = DefaultGridIntensity (config c)) \<and>
    (\<exists>m. CalculateNamespaceCarbon c now namespace pods = Inr [m] \<and>
         GridIntensity m = DefaultGridIntensity (config c)) \<and>
    (\<exists>m. CalculateNodeCarbon c now node pods = Inr [m] \<and>
         GridIntensity m = DefaultGridIntensity (config c)) \<and>
    (pod_NodeName pod \<noteq> [] \<longrightarrow>
       (\<exists>m. CalculatePodCarbon c now pod = Inr [m] \<and>
            GridIntensity m = DefaultGridIntensity (config c))) \<and>
    (pod_NodeName pod = [] \<longrightarrow>
       CalculatePodCarbon c now pod = CalculatePodCarbon (c\<lparr>gridIntensity := g\<rparr>) now pod)"
proof (intro conjI impI)
  show "\<exists>m. CalculateClusterCarbon c now nodes pods = Inr [m] \<and>
         GridIntensity m = DefaultGridIntensity (config c)"
    using assms by (simp add: CalculateClusterCarbon_eq usedGridIntensity_failed)
next
  show "\<exists>m. CalculateNamespaceCarbon c now namespace pods = Inr [m] \<and>
         GridIntensity m = DefaultGridIntensity (config c)"
    using assms by (simp add: CalculateNamespaceCarbon_eq usedGridIntensity_failed)
next
  show "\<exists>m. CalculateNodeCarbon c now node pods = Inr [m] \<and>
         GridIntensity m = DefaultGridIntensity (config c)"
    using assms CalculateNodeCarbon_Inr [of c now node pods]
    by (auto simp: usedGridIntensity_failed)
next
  assume "pod_NodeName pod \<noteq> []"
  then show "\<exists>m. CalculatePodCarbon c now pod = Inr [m] \<and>
            GridIntensity m = DefaultGridIntensity (config c)"
    using assms by (simp add: CalculatePodCarbon_scheduled usedGridIntensity_failed)
next
  assume "pod_NodeName pod = []"
  then show "CalculatePodCarbon c now pod = CalculatePodCarbon (c\<lparr>gridIntensity := g\<rparr>) now pod"
    by (simp add: CalculatePodCarbon_def calculatePodEnergyConsumption_def)
qed

theorem grid_lookup_failure_not_fatal_witness:
  "gridIntensity failingCalculator (DefaultGridIntensity (config failingCalculator))
     = Inl (ProviderError ''grid intensity unavailable'') \<and>
   pod_NodeName testPod1 \<noteq> [] \<and>
   (\<exists>m. CalculateClusterCarbon failingCalculator 0 [testNode1] testPods = Inr [m] \<and>
        GridIntensity m = Fin 500) \<and>
   (\<exists>m. CalculateNamespaceCarbon failingCalculator 0 testNamespace testPods = Inr [m] \<and>
        GridIntensity m = Fin 500) \<and>
   (\<exists>m. CalculateNodeCarbon failingCalculator 0 testNode1 testPods = Inr [m] \<and>
        GridIntensity m = Fin 500) \<and>
   (\<exists>m. CalculatePodCarbon failingCalculator 0 testPod1 = Inr [m] \<and>
        GridIntensity m = Fin 500)"
proof -
  have h: "gridIntensity failingCalculator (DefaultGridIntensity (config failingCalculator))
     = Inl (ProviderError ''grid intensity unavailable'')"
    by (simp add: failingCalculator_def)
  have p: "pod_NodeName testPod1 \<noteq> []"
    by (simp add: testPod1_def createPodWithResources_def)
  have d: "DefaultGridIntensity (config failingCalculator) = Fin 500"
    by (simp add: failingCalculator_def testConfig_def)
  from grid_lookup_failure_not_fatal
    [OF h, of 0 "[testNode1]" testPods testNamespace testNode1 testPod1] h p d
  show ?thesis by simp
qed

subsection \<open>C7: single-value aggregation\<close>

text \<open>
  C7, as amended. For every non-empty metric list, single-value formatting with an
  aggregation that is none of \<open>sum\<close>, \<open>avg\<close>, \<open>max\<close>, \<open>min\<close> returns what it returns
  for \<open>sum\<close>, and no error. The one output value is, for \<open>sum\<close> and for an unknown
  aggregation, the float64 sum of the metrics' CO2 values, added in input order starting
  from zero; for \<open>avg\<close>, that sum divided by the number of metrics; and, when none of the
  CO2 values is NaN, for \<open>max\<close> one of the values such that none is greater, for \<open>min\<close>
  one of the values such that none is smaller.
\<close>

theorem single_value_aggregation:
  assumes "metrics \<noteq> []"
  shows
   "(Aggregation query \<notin> {''sum'', ''avg'', ''max'', ''min''} \<longrightarrow>
       convertToSingleValueFrames metrics query =
         convertToSingleValueFrames metrics (query\<lparr>Aggregation := ''sum''\<rparr>) \<and>
       (\<exists>frames. convertToSingleValueFrames metrics query = Inr frames)) \<and>
    (Aggregation query \<notin> {''avg'', ''max'', ''min''} \<longrightarrow>
       convertToSingleValueFrames metrics query =
         Inr (singleValueFrames query (foldl (+) (Fin 0) (map CO2Emissions metrics)))) \<and>
    (Aggregation query = ''avg'' \<longrightarrow>
       convertToSingleValueFrames metrics query =
         Inr (singleValueFrames query
               (foldl (+) (Fin 0) (map CO2Emissions metrics)
                  / float64_of_int (int (length metrics))))) \<and>
    ((\<forall>m\<in>set metrics. \<not> isNaN (CO2Emissions m)) \<longrightarrow>
       (Aggregation query = ''max'' \<longrightarrow>
          (\<exists>v. convertToSingleValueFrames metrics query = Inr (singleValueFrames query v) \<and>
               v \<in> set (map CO2Emissions metrics) \<and>
               (\<forall>x\<in>set (map CO2Emissions metrics). x \<le> v))) \<and>
       (Aggregation query = ''min'' \<longrightarrow>
          (\<exists>v. convertToSingleValueFrames metrics query = Inr (singleValueFrames query v) \<and>
               v \<in> set (map CO2Emissions metrics) \<and>
               (\<forall>x\<in>set (map CO2Emissions metrics). v \<le> x))))"
proof (intro conjI impI)
  assume "Aggregation query \<notin> {''sum'', ''avg'', ''max'', ''min''}"
  then show "convertToSingleValueFrames metrics query =
         convertToSingleValueFrames metrics (query\<lparr>Aggregation := ''sum''\<rparr>)"
    by (simp add: convertToSingleValueFrames_def)
next
  show "\<exists>frames. convertToSingleValueFrames metrics query = Inr frames"
    by (simp add: convertToSingleValueFrames_def Let_def)
next
  assume "Aggregation query \<notin> {''avg'', ''max'', ''min''}"
  then show "convertToSingleValueFrames metrics query =
         Inr (singleValueFrames query (foldl (+) (Fin 0) (map CO2Emissions metrics)))"
    by (simp add: convertToSingleValueFrames_def singleValueFrames_def sumLoop_foldl)
next
  assume "Aggregation query = ''avg''"
  then show "convertToSingleValueFrames metrics query =
         Inr (singleValueFrames query
               (foldl (+) (Fin 0) (map CO2Emissions metrics)
                  / float64_of_int (int (length metrics))))"
    using assms
    by (simp add: convertToSingleValueFrames_def singleValueFrames_def sumLoop_foldl)
next
  assume "\<forall>m\<in>set metrics. \<not> isNaN (CO2Emissions m)" and "Aggregation query = ''max''"
  then show "\<exists>v. convertToSingleValueFrames metrics query = Inr (singleValueFrames query v) \<and>
               v \<in> set (map CO2Emissions metrics) \<and>
               (\<forall>x\<in>set (map CO2Emissions metrics). x \<le> v)"
    using maxLoop_0_max [OF _ assms]
    by (simp add: convertToSingleValueFrames_def singleValueFrames_def)
next
  assume "\<forall>m\<in>set metrics. \<not> isNaN (CO2Emissions m)" and "Aggregation query = ''min''"
  then show "\<exists>v. convertToSingleValueFrames metrics query = Inr (singleValueFrames query v) \<and>
               v \<in> set (map CO2Emissions metrics) \<and>
               (\<forall>x\<in>set (map CO2Emissions metrics). v \<le> x)"
    using minLoop_0_min [OF _ assms]
    by (simp add: convertToSingleValueFrames_def singleValueFrames_def)
qed

text \<open>The two test metrics, with masses 100.5 and 105.2.\<close>

theorem single_value_aggregation_witness:
  "testMetrics \<noteq> [] \<and> map CO2Emissions testMetrics = [Fin 100.5, Fin 105.2] \<and>
   convertToSingleValueFrames testMetrics (testQuery ''single-value'' ''median'') =
     convertToSingleValueFrames testMetrics (testQuery ''single-value'' ''sum'') \<and>
   convertToSingleValueFrames testMetrics (testQuery ''single-value'' ''median'') =
     Inr (singleValueFrames (testQuery ''single-value'' ''median'') (Fin 205.7)) \<and>
   convertToSingleValueFrames testMetrics (testQuery ''single-value'' ''sum'') =
     Inr (singleValueFrames (testQuery ''single-value'' ''sum'') (Fin 205.7)) \<and>
   convertToSingleValueFrames testMetrics (testQuery ''single-value'' ''avg'') =
     Inr (singleValueFrames (testQuery ''single-value'' ''avg'') (Fin 102.85)) \<and>
   convertToSingleValueFrames testMetrics (testQuery ''single-value'' ''max'') =
     Inr (singleValueFrames (testQuery ''single-value'' ''max'') (Fin 105.2)) \<and>
   convertToSingleValueFrames testMetrics (testQuery ''single-value'' ''min'') =
     Inr (singleValueFrames (testQuery ''single-value'' ''min'') (Fin 100.5))"
proof -
  have n: "testMetrics \<noteq> []"
    by (simp add: testMetrics_def)
  have v: "map CO2Emissions testMetrics = [Fin 100.5, Fin 105.2]"
    by (simp add: testMetrics_def emptyMetrics_def)
  have f: "\<forall>m\<in>set testMetrics. \<not> isNaN (CO2Emissions m)"
    by (simp add: testMetrics_def emptyMetrics_def)
  have l: "length testMetrics = 2"
    by (simp add: testMetrics_def)
  have q: "Aggregation (testQuery ''single-value'' a) = a"
      "(testQuery ''single-value'' a)\<lparr>Aggregation := ''sum''\<rparr> = testQuery ''single-value'' ''sum''"
      "RefID (testQuery ''single-value'' a) = ''A''"
    for a
    by (simp_all add: testQuery_def)
  from single_value_aggregation [OF n, of "testQuery ''single-value'' ''median''"]
    single_value_aggregation [OF n, of "testQuery ''single-value'' ''sum''"]
    single_value_aggregation [OF n, of "testQuery ''single-value'' ''avg''"]
    single_value_aggregation [OF n, of "testQuery ''single-value'' ''max''"]
    single_value_aggregation [OF n, of "testQuery ''single-value'' ''min''"]
    n f
  show ?thesis
    by (auto simp: q v l singleValueFrames_def float64_of_int_def)
qed

text \<open>
  The claim as first stated, for every non-empty list, fails on a list with a NaN, which
  the calculator itself can produce: every comparison with NaN is false, so the maximum
  loop keeps a NaN that comes first and skips one that comes later. The same two values
  give NaN in one order and 1.21875 in the other, and neither is greater than or equal to
  the other value.
\<close>

theorem single_value_max_nan_counterexample:
  "map CO2Emissions nanFirstMetrics = [NaN, Fin 1.21875] \<and>
   map CO2Emissions nanLastMetrics = [Fin 1.21875, NaN] \<and>
   convertToSingleValueFrames nanFirstMetrics (testQuery ''single-value'' ''max'')
     = Inr (singleValueFrames (testQuery ''single-value'' ''max'') NaN) \<and>
   convertToSingleValueFrames nanLastMetrics (testQuery ''single-value'' ''max'')
     = Inr (singleValueFrames (testQuery ''single-value'' ''max'') (Fin 1.21875)) \<and>
   \<not> (Fin 1.21875 \<le> NaN) \<and> \<not> (NaN \<le> Fin 1.21875)"
  by (simp add: convertToSingleValueFrames_def singleValueFrames_def testQuery_def
        nanFirstMetrics_def nanLastMetrics_def metricsOf_def
        CalculateClusterCarbon_def calculateNodeEnergyConsumption_def
        CalculatePodCarbon_def calculatePodEnergyConsumption_def Let_def
        failingCalculator_def testConfig_def bareNode_def testPod1_def
        createPodWithResources_def float64_of_int_def instanceTypeOf_def emptyMetrics_def
        divide_float64_def times_float64_def plus_float64_def less_float64_def
        less_eq_float64_def)

text \<open>The mean divides only when there is a metric: on no metrics the value stays zero.\<close>

lemma single_value_avg_empty:
  "convertToSingleValueFrames [] (testQuery ''single-value'' ''avg'')
     = Inr (singleValueFrames (testQuery ''single-value'' ''avg'') (Fin 0))"
  by (simp add: convertToSingleValueFrames_def singleValueFrames_def testQuery_def)

subsection \<open>C9: more CPU, more energy\<close>

text \<open>
  C9, as amended. Take two pods that both have a node, whose container requests are not
  negative, of which the first requests strictly more CPU in total than the second, at
  most \<open>2^40\<close> millicores, and both request the same memory in total, at most \<open>2^50\<close>
  bytes. With a configured PUE between \<open>2^-100\<close> and \<open>2^100\<close>, the energy that
  \<open>CalculatePodCarbon\<close> computes for the first pod is strictly greater than that of the
  second, whatever the grid intensity; with a grid intensity between \<open>2^-100\<close> and
  \<open>2^100\<close> in use, so is the CO2 mass.
\<close>

theorem pod_cpu_monotone:
  assumes "pod_NodeName p1 \<noteq> []" and "pod_NodeName p2 \<noteq> []"
    and "nonNegativeRequests p1" and "nonNegativeRequests p2"
    and "podCPURequest p2 < podCPURequest p1" and "podCPURequest p1 \<le> 2 ^ 40"
    and "podMemoryRequest p1 = podMemoryRequest p2" and "podMemoryRequest p1 \<le> 2 ^ 50"
    and "PUE (config c) = Fin k" and "1 / 2 ^ 100 \<le> k" and "k \<le> 2 ^ 100"
  shows "\<exists>m1 m2. CalculatePodCarbon c now p1 = Inr [m1] \<and>
           CalculatePodCarbon c now p2 = Inr [m2] \<and>
           EnergyConsumption m2 < EnergyConsumption m1 \<and>
           (usedGridIntensity c = Fin g \<and> 1 / 2 ^ 100 \<le> g \<and> g \<le> 2 ^ 100 \<longrightarrow>
              CO2Emissions m2 < CO2Emissions m1)"
proof -
  let ?e1 = "podModelKWh (podCPURequest p1) (podMemoryRequest p1)"
  let ?e2 = "podModelKWh (podCPURequest p2) (podMemoryRequest p2)"
  have n1: "0 \<le> podMemoryRequest p1" and n2: "0 \<le> podCPURequest p2"
    using assms(3,4) nonNegativeRequests_totals by blast+
  have "0 < ?e1"
    using n1 n2 assms(5) by (intro podModelKWh_pos) auto
  moreover have "?e2 \<le> (1 - 1 / 2 ^ 41) * ?e1"
    using podModelKWh_margin [OF n2 assms(5,6) n1 assms(8)] assms(7) by simp
  ultimately have lt: "?e2 < ?e1"
    by (simp add: field_simps)
  have "0 < k"
    using assms(10) by (rule less_le_trans [rotated]) simp
  with lt have e: "?e2 * k < ?e1 * k"
    by (rule mult_strict_right_mono)
  have m: "?e2 * k * g < ?e1 * k * g" if "1 / 2 ^ 100 \<le> g"
  proof -
    have "0 < g"
      using that by (rule less_le_trans [rotated]) simp
    with e show ?thesis
      by (rule mult_strict_right_mono)
  qed
  show ?thesis
    using assms(1,2,9) e m by (auto simp: CalculatePodCarbon_scheduled)
qed

theorem pod_cpu_monotone_witness:
  "pod_NodeName highCPUPod \<noteq> [] \<and> pod_NodeName lowCPUPod \<noteq> [] \<and>
   nonNegativeRequests highCPUPod \<and> nonNegativeRequests lowCPUPod \<and>
   podCPURequest lowCPUPod < podCPURequest highCPUPod \<and> podCPURequest highCPUPod \<le> 2 ^ 40 \<and>
   podMemoryRequest highCPUPod = podMemoryRequest lowCPUPod \<and>
   podMemoryRequest highCPUPod \<le> 2 ^ 50 \<and>
   PUE (config failingCalculator) = Fin 1.5 \<and> usedGridIntensity failingCalculator = Fin 500 \<and>
   (\<exists>m1 m2. CalculatePodCarbon failingCalculator 0 highCPUPod = Inr [m1] \<and>
      CalculatePodCarbon failingCalculator 0 lowCPUPod = Inr [m2] \<and>
      EnergyConsumption m2 < EnergyConsumption m1 \<and> CO2Emissions m2 < CO2Emissions m1) \<and>
   PUE (config zeroIntensityCalculator) = Fin 1.5 \<and>
   usedGridIntensity zeroIntensityCalculator = Fin 0 \<and>
   (\<exists>m1 m2. CalculatePodCarbon zeroIntensityCalculator 0 highCPUPod = Inr [m1] \<and>
      CalculatePodCarbon zeroIntensityCalculator 0 lowCPUPod = Inr [m2] \<and>
      EnergyConsumption m2 < EnergyConsumption m1)"
proof -
  have h: "pod_NodeName highCPUPod \<noteq> []" "pod_NodeName lowCPUPod \<noteq> []"
      "nonNegativeRequests highCPUPod" "nonNegativeRequests lowCPUPod"
      "podCPURequest lowCPUPod < podCPURequest highCPUPod"
      "podCPURequest highCPUPod \<le> 2 ^ 40"
      "podMemoryRequest highCPUPod = podMemoryRequest lowCPUPod"
      "podMemoryRequest highCPUPod \<le> 2 ^ 50"
    by (simp_all add: highCPUPod_def lowCPUPod_def createPodWithResources_def
        podCPURequest_def podMemoryRequest_def nonNegativeRequests_def)
  have k: "PUE (config failingCalculator) = Fin 1.5" "1 / 2 ^ 100 \<le> (1.5::real)"
      "(1.5::real) \<le> 2 ^ 100"
    by (simp_all add: failingCalculator_def testConfig_def)
  have g: "usedGridIntensity failingCalculator = Fin 500" "1 / 2 ^ 100 \<le> (500::real)"
      "(500::real) \<le> 2 ^ 100"
    by (simp_all add: failingCalculator_def testConfig_def usedGridIntensity_def)
  have k0: "PUE (config zeroIntensityCalculator) = Fin 1.5"
    by (simp add: zeroIntensityCalculator_def failingCalculator_def testConfig_def)
  have g0: "usedGridIntensity zeroIntensityCalculator = Fin 0"
    by (simp add: zeroIntensityCalculator_def failingCalculator_def testConfig_def
        usedGridIntensity_def)
  from pod_cpu_monotone [OF h k, of 0 500] pod_cpu_monotone [OF h k0 k(2,3), of 0 0]
    h k(1) g k0 g0
  show ?thesis
    by auto
qed

text \<open>
  The witness takes the test configuration (PUE 1.5, intensity 500) and the same
  configuration with a default intensity of zero, where the energies are still apart.

  The claim as first stated, for every configuration, fails when the PUE is zero (the
  value a configuration has when the field was never set): both pods get the energy 0
  and the mass 0.
\<close>

theorem pod_cpu_monotone_zero_pue_counterexample:
  "pod_NodeName highCPUPod \<noteq> [] \<and> pod_NodeName lowCPUPod \<noteq> [] \<and>
   podCPURequest lowCPUPod < podCPURequest highCPUPod \<and>
   podMemoryRequest highCPUPod = podMemoryRequest lowCPUPod \<and>
   map EnergyConsumption (metricsOf (CalculatePodCarbon zeroPUECalculator 0 highCPUPod))
     = [Fin 0] \<and>
   map EnergyConsumption (metricsOf (CalculatePodCarbon zeroPUECalculator 0 lowCPUPod))
     = [Fin 0] \<and>
   map CO2Emissions (metricsOf (CalculatePodCarbon zeroPUECalculator 0 highCPUPod))
     = [Fin 0] \<and>
   map CO2Emissions (metricsOf (CalculatePodCarbon zeroPUECalculator 0 lowCPUPod))
     = [Fin 0] \<and>
   \<not> (Fin 0 < Fin 0)"
  by (simp add: CalculatePodCarbon_def calculatePodEnergyConsumption_def Let_def metricsOf_def
      zeroPUECalculator_def failingCalculator_def testConfig_def highCPUPod_def lowCPUPod_def
      createPodWithResources_def emptyMetrics_def float64_of_int_def podCPURequest_def
      podMemoryRequest_def)

text \<open>
  A positive PUE alone is not enough for the mass: with a grid intensity of zero the
  energies differ and both masses are zero. The bounds on the requests, the PUE and the
  intensity are for the code's binary64 arithmetic, where a difference of one millicore
  is rounded away above \<open>2^53\<close> millicores and a product can underflow to zero or
  overflow to infinity; within them the exact values are far enough apart
  (\<open>podModelKWh_margin\<close>).
\<close>

lemma pod_cpu_monotone_zero_intensity_example:
  "map EnergyConsumption (metricsOf (CalculatePodCarbon zeroIntensityCalculator 0 highCPUPod))
     = [Fin 0.0043125] \<and>
   map EnergyConsumption (metricsOf (CalculatePodCarbon zeroIntensityCalculator 0 lowCPUPod))
     = [Fin 0.0009375] \<and>
   map CO2Emissions (metricsOf (CalculatePodCarbon zeroIntensityCalculator 0 highCPUPod))
     = [Fin 0] \<and>
   map CO2Emissions (metricsOf (CalculatePodCarbon zeroIntensityCalculator 0 lowCPUPod))
     = [Fin 0]"
  by (simp add: CalculatePodCarbon_def calculatePodEnergyConsumption_def Let_def metricsOf_def
      zeroIntensityCalculator_def failingCalculator_def testConfig_def highCPUPod_def
      lowCPUPod_def createPodWithResources_def emptyMetrics_def float64_of_int_def)

subsection \<open>C10: the aggregate scopes cannot fail\<close>

text \<open>
  C10. For every input, \<open>calculateNodeEnergyConsumption\<close> returns a value and no error,
  and \<open>CalculateClusterCarbon\<close>, \<open>CalculateNamespaceCarbon\<close> and \<open>CalculateNodeCarbon\<close>
  return no error and a list of exactly one metric. A failed instance-spec lookup is
  replaced by the fallback spec (2 vCPU, 4 GB, 100 W): the estimator returns what it
  returns with a provider that answers with that spec. So the skip branch of the cluster
  loop and the error return of the node calculation are never taken.
\<close>

theorem aggregate_scopes_never_fail:
  "(\<exists>e. calculateNodeEnergyConsumption c node pods = Inr e) \<and>
   (\<exists>m. CalculateClusterCarbon c now nodes pods = Inr [m]) \<and>
   (\<exists>m. CalculateNamespaceCarbon c now namespace pods = Inr [m]) \<and>
   (\<exists>m. CalculateNodeCarbon c now node pods = Inr [m]) \<and>
   (instanceSpecs c (instanceTypeOf node) = Inl err \<longrightarrow>
      calculateNodeEnergyConsumption c node pods =
        calculateNodeEnergyConsumption
          (c\<lparr>instanceSpecs := (\<lambda>t. Inr \<lparr>InstanceType = instanceTypeOf node, VCPUs = 2,
                                          MemoryGB = Fin 4, TDP = Fin 100\<rparr>)\<rparr>) node pods)"
proof (intro conjI impI)
  show "\<exists>e. calculateNodeEnergyConsumption c node pods = Inr e"
    by (simp add: calculateNodeEnergyConsumption_eq)
next
  show "\<exists>m. CalculateClusterCarbon c now nodes pods = Inr [m]"
    by (simp add: CalculateClusterCarbon_eq)
next
  show "\<exists>m. CalculateNamespaceCarbon c now namespace pods = Inr [m]"
    by (simp add: CalculateNamespaceCarbon_eq)
next
  show "\<exists>m. CalculateNodeCarbon c now node pods = Inr [m]"
    using CalculateNodeCarbon_Inr [of c now node pods] by blast
next
  assume "instanceSpecs c (instanceTypeOf node) = Inl err"
  then show "calculateNodeEnergyConsumption c node pods =
        calculateNodeEnergyConsumption
          (c\<lparr>instanceSpecs := (\<lambda>t. Inr \<lparr>InstanceType = instanceTypeOf node, VCPUs = 2,
                                          MemoryGB = Fin 4, TDP = Fin 100\<rparr>)\<rparr>) node pods"
    by (simp add: calculateNodeEnergyConsumption_eq resolvedSpecs_def fallbackSpecs_def)
qed

text \<open>
  On the fixtures, with both providers failing: the node estimator uses the 100 W of the
  fallback, and the cluster calculation returns its metric even with a node that reports
  no capacity in the list.
\<close>

theorem aggregate_scopes_never_fail_witness:
  "instanceSpecs failingCalculator (instanceTypeOf testNode1)
     = Inl (ProviderError ''unknown instance type'') \<and>
   calculateNodeEnergyConsumption failingCalculator testNode1 testPods = Inr (Fin 0.05975) \<and>
   calculateNodeEnergyConsumption
     (failingCalculator\<lparr>instanceSpecs :=
        (\<lambda>t. Inr \<lparr>InstanceType = instanceTypeOf testNode1, VCPUs = 2,
                   MemoryGB = Fin 4, TDP = Fin 100\<rparr>)\<rparr>) testNode1 testPods
     = Inr (Fin 0.05975) \<and>
   (\<exists>m. CalculateClusterCarbon failingCalculator 0 [testNode1, bareNode] testPods = Inr [m]) \<and>
   (\<exists>m. CalculateNamespaceCarbon failingCalculator 0 testNamespace testPods = Inr [m]) \<and>
   (\<exists>m. CalculateNodeCarbon failingCalculator 0 testNode1 testPods = Inr [m])"
proof -
  have h: "instanceSpecs failingCalculator (instanceTypeOf testNode1)
     = Inl (ProviderError ''unknown instance type'')"
    by (simp add: failingCalculator_def)
  have e: "calculateNodeEnergyConsumption failingCalculator testNode1 testPods
      = Inr (Fin 0.05975)"
    by (simp add: calculateNodeEnergyConsumption_def Let_def failingCalculator_def
        testNode1_def testPods_def createPodWithResources_def float64_of_int_def
        instanceTypeOf_def)
  from aggregate_scopes_never_fail
    [of failingCalculator testNode1 testPods 0 "[testNode1, bareNode]" testNamespace
        "ProviderError ''unknown instance type''"]
    h e
  show ?thesis by simp
qed

end
